theory Spec2Isabelle
  imports Complex_Main
begin

section \<open>Values of the program\<close>

text \<open>
  The payload that \<^verbatim>\<open>request.get_json()\<close> hands to the handler is an arbitrary
  parsed JSON document, so the model keeps every shape Python's parser produces:
  \<^verbatim>\<open>None\<close>, booleans, integers, finite floats (every finite double is a rational),
  the non-finite floats the parser also accepts, strings, lists and dicts. A dict is
  an association list read with \<open>map_of\<close>. Python's \<^verbatim>\<open>None\<close> and JSON's
  \<^verbatim>\<open>null\<close> are the same value \<open>JNull\<close>.
\<close>

datatype json =
    JNull
  | JBool bool
  | JInt int
  | JFloat rat
  | JNonFinite
  | JStr string
  | JList "json list"
  | JObj "(string \<times> json) list"

text \<open>Python truthiness, which is what \<^verbatim>\<open>not user_message\<close> tests.\<close>

fun truthy :: "json \<Rightarrow> bool" where
  "truthy JNull = False"
| "truthy (JBool b) = b"
| "truthy (JInt i) = (i \<noteq> 0)"
| "truthy (JFloat r) = (r \<noteq> 0)"
| "truthy JNonFinite = True"
| "truthy (JStr s) = (s \<noteq> [])"
| "truthy (JList xs) = (xs \<noteq> [])"
| "truthy (JObj kvs) = (kvs \<noteq> [])"

text \<open>
  Exceptions that can leave the view function: \<^verbatim>\<open>get_json()\<close> raises BadRequest
  when a body declared as JSON does not parse, \<^verbatim>\<open>data.get\<close> raises AttributeError
  when the parsed document is not a dict, and \<^verbatim>\<open>requests.post\<close> raises
  UnicodeEncodeError when it cannot encode the form data or the Authorization header.
\<close>

datatype exn = BadRequest | AttributeError | UnicodeEncodeError

text \<open>\<^verbatim>\<open>dict.get(key)\<close>: the value, \<^verbatim>\<open>None\<close> for a missing key.\<close>

definition dict_get :: "(string \<times> json) list \<Rightarrow> string \<Rightarrow> json" where
  "dict_get kvs k = (case map_of kvs k of None \<Rightarrow> JNull | Some v \<Rightarrow> v)"

text \<open>\<^verbatim>\<open>data.get(key)\<close> on whatever \<^verbatim>\<open>get_json()\<close> returned: only a dict has the
  attribute, every other value raises AttributeError.\<close>

fun py_get :: "json \<Rightarrow> string \<Rightarrow> exn + json" where
  "py_get (JObj kvs) k = Inr (dict_get kvs k)"
| "py_get _ k = Inl AttributeError"

section \<open>Effects\<close>

text \<open>
  Everything the two functions do besides returning is recorded, in order, as a list of
  events: a log record (its level only), a call of \<^verbatim>\<open>model.generate_content\<close> with its
  argument, a call of \<^verbatim>\<open>send_fonnte_reply\<close> with target and message, and each HTTP
  POST request that reaches the messaging platform, with the Authorization token, target
  and message.
\<close>

datatype level = INFO | WARNING | ERROR

datatype event =
    Log level
  | Generate json
  | Send json string
  | Post string json string

fun sends :: "event list \<Rightarrow> (json \<times> string) list" where
  "sends [] = []"
| "sends (Send tg m # es) = (tg, m) # sends es"
| "sends (e # es) = sends es"

fun generates :: "event list \<Rightarrow> json list" where
  "generates [] = []"
| "generates (Generate m # es) = m # generates es"
| "generates (e # es) = generates es"

fun posts :: "event list \<Rightarrow> (string \<times> json \<times> string) list" where
  "posts [] = []"
| "posts (Post tok tg m # es) = (tok, tg, m) # posts es"
| "posts (e # es) = posts es"

section \<open>The process-wide configuration and the outside world\<close>

text \<open>
  What the completion service does with a prompt: \<^verbatim>\<open>generate_content\<close> followed by
  reading \<^verbatim>\<open>response.text\<close> either yields the reply text or raises (both statements
  stand in the same \<^verbatim>\<open>try\<close> block, and \<^verbatim>\<open>except Exception\<close> catches whatever they
  raise).
\<close>

datatype completion = Raises | Text string

text \<open>
  What the one call of \<^verbatim>\<open>requests.post\<close> on line 72 does.
  \<^item> \<open>PostRaises n\<close>: it raises a RequestException (connection error, timeout, too
    many redirects) after \<open>n\<close> POST requests were put on the wire.
  \<^item> \<open>PostRaisesOther\<close>: it raises an exception that is not a RequestException before
    anything is sent. The library does so with UnicodeEncodeError when the target or the
    message holds a lone surrogate (the JSON parser accepts one written as an escape),
    which has no UTF-8 encoding, and when the token has a character outside Latin-1.
  \<^item> \<open>Response k status body_json\<close>: it returns the final response, with its status
    code and whether \<^verbatim>\<open>response.json()\<close> can decode its body, after following \<open>k\<close>
    redirects of the kind that repeat the POST (307 and 308); \<open>Suc k\<close> POST requests
    were put on the wire.
\<close>

datatype post_result = PostRaises nat | PostRaisesOther | Response nat nat bool

text \<open>
  The module-level names the functions read: \<^verbatim>\<open>FONTE_API_TOKEN\<close> is the result of
  \<^verbatim>\<open>os.getenv\<close> (\<^verbatim>\<open>None\<close> or a string), \<^verbatim>\<open>model\<close> is \<^verbatim>\<open>None\<close> after a failed
  configuration and otherwise the client, given here by what it answers. The answer of the
  messaging platform to a POST is the third component.
\<close>

record env =
  FONTE_API_TOKEN :: "string option"
  model :: "(json \<Rightarrow> completion) option"
  requests_post :: "string \<Rightarrow> json \<Rightarrow> string \<Rightarrow> post_result"

text \<open>
  The request as Flask presents it to the view function: \<^verbatim>\<open>request.method\<close>,
  \<^verbatim>\<open>request.is_json\<close> (the declared content type is a JSON type) and the result of
  \<^verbatim>\<open>request.get_json()\<close> (\<open>None\<close> when the body does not parse and BadRequest is
  raised).
\<close>

record request =
  request_method :: string
  is_json :: bool
  get_json :: "json option"

section \<open>send_fonnte_reply\<close>

text \<open>
  \<^verbatim>\<open>Response.raise_for_status()\<close> of the requests library raises HTTPError for the
  client-error and server-error classes, that is for status codes from 400 to 599, and
  returns normally for every other status code.
\<close>

definition raise_for_status :: "nat \<Rightarrow> bool" where
  "raise_for_status status = (400 \<le> status \<and> status < 600)"

text \<open>
  Lines 55 to 79. The \<^verbatim>\<open>except\<close> clause catches RequestException only: HTTPError
  and the JSONDecodeError of \<^verbatim>\<open>response.json()\<close> are subclasses of it and end in
  that branch, any other exception leaves the function.
\<close>

definition send_fonnte_reply ::
  "env \<Rightarrow> json \<Rightarrow> string \<Rightarrow> (exn + bool) \<times> event list" where
  "send_fonnte_reply e target message =
     (case FONTE_API_TOKEN e of
        None \<Rightarrow> (Inr False, [Send target message, Log ERROR])
      | Some token \<Rightarrow>
          if token = [] then (Inr False, [Send target message, Log ERROR])
          else
            (case requests_post e token target message of
               PostRaises n \<Rightarrow>
                 (Inr False,
                  Send target message # replicate n (Post token target message)
                    @ [Log ERROR])
             | PostRaisesOther \<Rightarrow> (Inl UnicodeEncodeError, [Send target message])
             | Response k status body_json \<Rightarrow>
                 if raise_for_status status
                 then (Inr False,
                       Send target message # replicate (Suc k) (Post token target message)
                         @ [Log ERROR])
                 else if \<not> body_json
                 then (Inr False,
                       Send target message # replicate (Suc k) (Post token target message)
                         @ [Log ERROR])
                 else (Inr True,
                       Send target message # replicate (Suc k) (Post token target message)
                         @ [Log INFO])))"

section \<open>webhook\<close>

definition msg_unavailable :: string where
  "msg_unavailable =
     ''Maaf, layanan chatbot sedang mengalami gangguan. Silakan coba lagi nanti.''"

definition msg_failed :: string where
  "msg_failed = ''Maaf, terjadi kesalahan saat memproses permintaan Anda.''"

definition body_active :: json where
  "body_active = JObj [(''status'', JStr ''success''),
     (''message'', JStr ''Webhook is active and ready for POST requests.'')]"

definition body_not_json :: json where
  "body_not_json = JObj [(''status'', JStr ''error''),
     (''message'', JStr ''Request must be JSON'')]"

definition body_status_update :: json where
  "body_status_update = JObj [(''status'', JStr ''ok''),
     (''message'', JStr ''Status update received'')]"

definition body_not_configured :: json where
  "body_not_configured = JObj [(''status'', JStr ''error''),
     (''message'', JStr ''Model not configured'')]"

definition body_success :: json where
  "body_success = JObj [(''status'', JStr ''success'')]"

definition body_internal_error :: json where
  "body_internal_error = JObj [(''status'', JStr ''error''),
     (''message'', JStr ''Internal server error'')]"

definition body_method_not_allowed :: json where
  "body_method_not_allowed = JObj [(''status'', JStr ''error''),
     (''message'', JStr ''Method not allowed'')]"

text \<open>
  Lines 129 to 132, the \<^verbatim>\<open>except Exception\<close> block: it logs the error and sends the
  generic-error text. The send stands outside any \<^verbatim>\<open>try\<close>, so an exception it
  raises leaves the view.
\<close>

definition webhook_except :: "env \<Rightarrow> json \<Rightarrow> (exn + json \<times> nat) \<times> event list" where
  "webhook_except e sender =
     (case send_fonnte_reply e sender msg_failed of
        (Inl x, t) \<Rightarrow> (Inl x, Log ERROR # t)
      | (Inr ok, t) \<Rightarrow> (Inr (body_internal_error, 500), Log ERROR # t))"

text \<open>
  Lines 83 to 135. The result is the pair the view returns (the \<^verbatim>\<open>jsonify\<close> body and
  the status code) or the exception that leaves it, together with the events in the
  order the statements produce them. The send on line 113 stands outside any
  \<^verbatim>\<open>try\<close>; the send on line 125 stands inside the \<^verbatim>\<open>try\<close>, so an exception it
  raises is handled by the \<^verbatim>\<open>except\<close> block like one of the completion.
\<close>

definition webhook :: "env \<Rightarrow> request \<Rightarrow> (exn + json \<times> nat) \<times> event list" where
  "webhook e req =
     (if request_method req = ''GET'' then (Inr (body_active, 200), [Log INFO])
      else if request_method req = ''POST'' then
        (if \<not> is_json req then (Inr (body_not_json, 400), [Log WARNING])
         else
           (case get_json req of
              None \<Rightarrow> (Inl BadRequest, [])
            | Some data \<Rightarrow>
                (case py_get data ''message'' of
                   Inl x \<Rightarrow> (Inl x, [Log INFO])
                 | Inr user_message \<Rightarrow>
                     if \<not> truthy user_message
                     then (Inr (body_status_update, 200), [Log INFO, Log INFO])
                     else
                       (case py_get data ''sender'' of
                          Inl x \<Rightarrow> (Inl x, [Log INFO])
                        | Inr sender \<Rightarrow>
                            (case model e of
                               None \<Rightarrow>
                                 (case send_fonnte_reply e sender msg_unavailable of
                                    (Inl x, t) \<Rightarrow> (Inl x, [Log INFO, Log ERROR] @ t)
                                  | (Inr ok, t) \<Rightarrow>
                                      (Inr (body_not_configured, 500),
                                       [Log INFO, Log ERROR] @ t))
                             | Some generate_content \<Rightarrow>
                                 (case generate_content user_message of
                                    Text ai_reply \<Rightarrow>
                                      (case send_fonnte_reply e sender ai_reply of
                                         (Inr ok, t) \<Rightarrow>
                                           (Inr (body_success, 200),
                                            [Log INFO, Log INFO, Generate user_message,
                                             Log INFO] @ t)
                                       | (Inl x, t) \<Rightarrow>
                                           (fst (webhook_except e sender),
                                            [Log INFO, Log INFO, Generate user_message,
                                             Log INFO] @ t
                                              @ snd (webhook_except e sender)))
                                  | Raises \<Rightarrow>
                                      (fst (webhook_except e sender),
                                       [Log INFO, Log INFO, Generate user_message]
                                         @ snd (webhook_except e sender))))))))
      else (Inr (body_method_not_allowed, 405), []))"

section \<open>The route\<close>

text \<open>
  Line 82 registers the view for the methods POST and GET. Flask adds HEAD to a rule
  that lists GET and answers OPTIONS itself without calling the view; a request with
  any other method is refused by the router with its own 405 response, and the view is
  not called. An exception that leaves the view becomes the framework's response:
  400 for BadRequest, 500 for anything else.
\<close>

datatype http_response = View json nat | Framework nat

definition route_methods :: "string list" where
  "route_methods = [''POST'', ''GET'']"

definition dispatch :: "env \<Rightarrow> request \<Rightarrow> http_response \<times> event list" where
  "dispatch e req =
     (if request_method req = ''OPTIONS'' then (Framework 200, [])
      else if request_method req \<in> set route_methods
              \<or> (request_method req = ''HEAD'' \<and> ''GET'' \<in> set route_methods)
      then
        (case webhook e req of
           (Inr (body, code), t) \<Rightarrow> (View body code, t)
         | (Inl BadRequest, t) \<Rightarrow> (Framework 400, t)
         | (Inl AttributeError, t) \<Rightarrow> (Framework 500, t)
         | (Inl UnicodeEncodeError, t) \<Rightarrow> (Framework 500, t))
      else (Framework 405, []))"

section \<open>Concrete configurations used in the examples\<close>

text \<open>
  Strings are lists of bytes. The lone surrogate U+D800, which has no UTF-8 encoding, is
  written by the three bytes of its generalised encoding, and the token of
  \<open>env_bad_token\<close> is the UTF-8 form of the euro sign, a character outside Latin-1.
\<close>

definition env_ok :: env where
  "env_ok = \<lparr>FONTE_API_TOKEN = Some ''token'',
             model = Some (\<lambda>m. Text ''Tonsilitis adalah...''),
             requests_post = (\<lambda>tok tg m. Response 0 200 True)\<rparr>"




definition env_300 :: env where
  "env_300 = \<lparr>FONTE_API_TOKEN = Some ''token'',
              model = None,
              requests_post = (\<lambda>tok tg m. Response 0 300 True)\<rparr>"

definition env_redirect :: env where
  "env_redirect = \<lparr>FONTE_API_TOKEN = Some ''token'',
                   model = None,
                   requests_post = (\<lambda>tok tg m. Response 1 200 True)\<rparr>"







definition req_get :: request where
  "req_get = \<lparr>request_method = ''GET'', is_json = False, get_json = None\<rparr>"





definition kvs_status :: "(string \<times> json) list" where
  "kvs_status = [(''event'', JStr ''sent''), (''id'', JStr ''abc'')]"

definition req_status :: request where
  "req_status =
     \<lparr>request_method = ''POST'', is_json = True, get_json = Some (JObj kvs_status)\<rparr>"

definition req_list :: request where
  "req_list = \<lparr>request_method = ''POST'', is_json = True, get_json = Some (JList [])\<rparr>"





definition req_put :: request where
  "req_put = \<lparr>request_method = ''PUT'', is_json = False, get_json = None\<rparr>"

definition req_options :: request where
  "req_options = \<lparr>request_method = ''OPTIONS'', is_json = False, get_json = None\<rparr>"

definition req_head :: request where
  "req_head = \<lparr>request_method = ''HEAD'', is_json = False, get_json = None\<rparr>"

section \<open>Projections of a trace\<close>



lemma posts_append: "posts (xs @ ys) = posts xs @ posts ys"
  by (induction xs rule: posts.induct) simp_all



section \<open>Facts about send_fonnte_reply\<close>



text \<open>Without a token the function returns False before any network call.\<close>

lemma send_fonnte_reply_no_token:
  "FONTE_API_TOKEN e = None \<or> FONTE_API_TOKEN e = Some [] \<Longrightarrow>
     send_fonnte_reply e target message = (Inr False, [Send target message, Log ERROR])"
  by (auto simp: send_fonnte_reply_def)

text \<open>The result is True exactly when the POST returned a response whose status is
  outside 400..599 and whose body decodes as JSON.\<close>

lemma send_fonnte_reply_True_iff:
  "fst (send_fonnte_reply e target message) = Inr True \<longleftrightarrow>
     (\<exists>token k status. FONTE_API_TOKEN e = Some token \<and> token \<noteq> []
        \<and> requests_post e token target message = Response k status True
        \<and> \<not> raise_for_status status)"
  by (auto simp: send_fonnte_reply_def split: option.split post_result.split)

text \<open>A response of the client-error or server-error class gives False.\<close>

lemma send_fonnte_reply_error_status:
  "FONTE_API_TOKEN e = Some token \<Longrightarrow>
   requests_post e token target message = Response k status b \<Longrightarrow>
   400 \<le> status \<Longrightarrow> status < 600 \<Longrightarrow>
     fst (send_fonnte_reply e target message) = Inr False"
  by (simp add: send_fonnte_reply_def raise_for_status_def)

text \<open>An exception of \<^verbatim>\<open>requests.post\<close> that is not a RequestException leaves the
  function: no boolean is returned.\<close>

lemma send_fonnte_reply_raises:
  "FONTE_API_TOKEN e = Some token \<Longrightarrow> token \<noteq> [] \<Longrightarrow>
   requests_post e token target message = PostRaisesOther \<Longrightarrow>
     send_fonnte_reply e target message = (Inl UnicodeEncodeError, [Send target message])"
  by (simp add: send_fonnte_reply_def)

text \<open>A followed 307 or 308 redirect repeats the POST: one call, two requests on the
  wire.\<close>

lemma send_fonnte_reply_redirect:
  "send_fonnte_reply env_redirect (JStr ''628123'') ''halo'' =
     (Inr True, [Send (JStr ''628123'') ''halo'',
                 Post ''token'' (JStr ''628123'') ''halo'',
                 Post ''token'' (JStr ''628123'') ''halo'', Log INFO])"
  by (simp add: send_fonnte_reply_def env_redirect_def raise_for_status_def)

text \<open>
  C6. With a token configured, a platform answer with status 300 (a status that is
  neither followed as a redirect nor an error class) and a JSON body makes
  \<^verbatim>\<open>send_fonnte_reply\<close> return True after its one POST: \<^verbatim>\<open>raise_for_status\<close> does
  not raise for it, although the comment on line 73 expects an exception for every
  status that is not 2xx.
\<close>

theorem send_fonnte_reply_status_300:
  "send_fonnte_reply env_300 (JStr ''628123'') ''halo'' =
     (Inr True, [Send (JStr ''628123'') ''halo'',
                 Post ''token'' (JStr ''628123'') ''halo'', Log INFO])"
  by (simp add: send_fonnte_reply_def env_300_def raise_for_status_def)

section \<open>The verification probe\<close>

text \<open>
  C9. A GET request gets status 200 with the fixed acknowledgement body; the handler
  makes no completion call and no outbound-send call (its only effect is one log
  record).
\<close>

theorem webhook_get:
  "request_method req = ''GET'' \<Longrightarrow>
     webhook e req = (Inr (body_active, 200), [Log INFO])
     \<and> generates (snd (webhook e req)) = []
     \<and> sends (snd (webhook e req)) = []
     \<and> posts (snd (webhook e req)) = []"
  by (simp add: webhook_def)

theorem webhook_get_witness:
  "request_method req_get = ''GET''
   \<and> webhook env_ok req_get =
       (Inr (JObj [(''status'', JStr ''success''),
                   (''message'', JStr ''Webhook is active and ready for POST requests.'')],
             200), [Log INFO])
   \<and> sends (snd (webhook env_ok req_get)) = []"
proof -
  have h: "request_method req_get = ''GET''" by (simp add: req_get_def)
  from webhook_get [OF h, of env_ok] show ?thesis
    using h by (simp add: body_active_def)
qed

section \<open>Status callbacks and malformed payloads\<close>

text \<open>
  A parsed document that is not a dict (a list, a string, a number, a boolean,
  \<^verbatim>\<open>null\<close>) has no \<^verbatim>\<open>get\<close>: line 103 raises AttributeError and the handler
  returns nothing.
\<close>

lemma webhook_not_dict:
  assumes "request_method req = ''POST''" and "is_json req"
    and "get_json req = Some d" and "\<And>kvs. d \<noteq> JObj kvs"
  shows "webhook e req = (Inl AttributeError, [Log INFO])"
proof (cases d)
  case (JObj kvs)
  with assms(4) show ?thesis by blast
qed (use assms(1-3) in \<open>simp_all add: webhook_def\<close>)

text \<open>
  C4 as stated, for every JSON body without a \<^verbatim>\<open>message\<close> field, fails on a JSON
  body that is not an object: for the body \<^verbatim>\<open>[]\<close> the handler raises
  AttributeError instead of returning the 200 acknowledgement.
\<close>

theorem webhook_status_update_counterexample:
  "fst (webhook env_ok req_list) = Inl AttributeError
   \<and> fst (webhook env_ok req_list) \<noteq> Inr (body_status_update, 200)"
  by (simp add: webhook_def req_list_def)

text \<open>
  C4, amended to JSON objects. A POST request whose JSON body is an object in which
  \<^verbatim>\<open>message\<close> is absent or empty (falsy) is a status callback: the handler returns 200
  with body \<^verbatim>\<open>{"status": "ok", "message": "Status update received"}\<close>, makes no
  completion call and no outbound-send call.
\<close>

theorem webhook_status_update:
  assumes "request_method req = ''POST''" and "is_json req"
    and "get_json req = Some (JObj kvs)"
    and "map_of kvs ''message'' = None
         \<or> (\<exists>v. map_of kvs ''message'' = Some v \<and> \<not> truthy v)"
  shows "webhook e req = (Inr (body_status_update, 200), [Log INFO, Log INFO])
     \<and> generates (snd (webhook e req)) = []
     \<and> sends (snd (webhook e req)) = []
     \<and> posts (snd (webhook e req)) = []"
proof -
  have "\<not> truthy (dict_get kvs ''message'')"
    using assms(4) by (auto simp: dict_get_def)
  then show ?thesis
    using assms(1-3) by (simp add: webhook_def)
qed

theorem webhook_status_update_witness:
  "webhook env_ok req_status =
     (Inr (JObj [(''status'', JStr ''ok''), (''message'', JStr ''Status update received'')],
           200), [Log INFO, Log INFO])
   \<and> generates (snd (webhook env_ok req_status)) = []
   \<and> sends (snd (webhook env_ok req_status)) = []"
proof -
  have h1: "request_method req_status = ''POST''" by (simp add: req_status_def)
  have h2: "is_json req_status" by (simp add: req_status_def)
  have h3: "get_json req_status = Some (JObj kvs_status)" by (simp add: req_status_def)
  have h4: "map_of kvs_status ''message'' = None
      \<or> (\<exists>v. map_of kvs_status ''message'' = Some v \<and> \<not> truthy v)"
    by (simp add: kvs_status_def)
  from webhook_status_update [OF h1 h2 h3 h4, of env_ok] show ?thesis
    by (simp add: body_status_update_def)
qed

section \<open>Other methods\<close>

text \<open>
  C8 as stated, a 405 with the handler's JSON body for every method other than GET and
  POST, fails at the route: a PUT request is refused by the router with the framework's
  own 405 response and an OPTIONS request is answered 200 by the framework; the
  handler's fallback runs for neither.
\<close>

theorem dispatch_other_method_counterexample:
  "dispatch env_ok req_put = (Framework 405, [])
   \<and> fst (dispatch env_ok req_put) \<noteq> View body_method_not_allowed 405
   \<and> dispatch env_ok req_options = (Framework 200, [])
   \<and> fst (dispatch env_ok req_options) \<noteq> View body_method_not_allowed 405"
  by (simp add: dispatch_def route_methods_def req_put_def req_options_def)

text \<open>
  C8, amended. For every request whose method is neither GET nor POST no completion call
  and no outbound-send call is made. The handler, when it is called with such a method,
  returns 405 with body \<^verbatim>\<open>{"status": "error", "message": "Method not allowed"}\<close>; of
  these methods the route lets only HEAD through to the handler. OPTIONS is answered 200
  by the framework, and every other method is refused by the framework with 405 before
  the handler runs.
\<close>

theorem dispatch_other_method:
  assumes "request_method req \<noteq> ''GET''" and "request_method req \<noteq> ''POST''"
  shows "webhook e req = (Inr (body_method_not_allowed, 405), [])
     \<and> dispatch e req =
         (if request_method req = ''OPTIONS'' then (Framework 200, [])
          else if request_method req = ''HEAD'' then (View body_method_not_allowed 405, [])
          else (Framework 405, []))
     \<and> generates (snd (dispatch e req)) = []
     \<and> sends (snd (dispatch e req)) = []"
proof -
  have w: "webhook e req = (Inr (body_method_not_allowed, 405), [])"
    using assms by (simp add: webhook_def)
  have d: "dispatch e req =
         (if request_method req = ''OPTIONS'' then (Framework 200, [])
          else if request_method req = ''HEAD'' then (View body_method_not_allowed 405, [])
          else (Framework 405, []))"
    using assms by (simp add: dispatch_def route_methods_def w)
  show ?thesis
    unfolding d using w by simp
qed

theorem dispatch_other_method_witness:
  "webhook env_ok req_head =
     (Inr (JObj [(''status'', JStr ''error''), (''message'', JStr ''Method not allowed'')],
           405), [])
   \<and> dispatch env_ok req_head =
       (View (JObj [(''status'', JStr ''error''), (''message'', JStr ''Method not allowed'')])
          405, [])
   \<and> sends (snd (dispatch env_ok req_head)) = []"
proof -
  have h1: "request_method req_head \<noteq> ''GET''" by (simp add: req_head_def)
  have h2: "request_method req_head \<noteq> ''POST''" by (simp add: req_head_def)
  have m: "request_method req_head = ''HEAD''" by (simp add: req_head_def)
  from dispatch_other_method [OF h1 h2, of env_ok] show ?thesis
    by (simp add: m body_method_not_allowed_def)
qed

section \<open>Requests without a JSON document\<close>




section \<open>Genuine messages\<close>










section \<open>The success path\<close>




section \<open>The completion-failure path\<close>




section \<open>The model-unavailable path\<close>




section \<open>One reply per genuine message\<close>




section \<open>A payload without a sender\<close>




end
